theory Spec2Isabelle
  imports Main "HOL-Library.AList"
begin

section \<open>Storage of tabular data in a relational store (jtssql)\<close>

text \<open>
  The development follows \<^verbatim>\<open>src/jtssql/storage.py\<close>: a \<^verbatim>\<open>Storage\<close> object holds an
  SQLAlchemy engine, an optional database schema name, a table name prefix and a cached
  table listing.  Every method becomes a function from the handle to a result and the
  handle afterwards; a raised exception is the left summand of the result, and the handle
  returned with it carries whatever the method had assigned before raising.
\<close>

subsection \<open>Python strings\<close>

text \<open>\<^verbatim>\<open>s.startswith(p)\<close>.\<close>

fun startswith :: "string \<Rightarrow> string \<Rightarrow> bool" where
  "startswith s [] = True"
| "startswith [] (p # ps) = False"
| "startswith (c # cs) (p # ps) = (c = p \<and> startswith cs ps)"

text \<open>
  \<^verbatim>\<open>s.replace(old, new, 1)\<close>: the leftmost occurrence of \<open>old\<close> is replaced, the
  rest of the string is kept.  An empty \<open>old\<close> occurs at position 0.
\<close>

fun replace1 :: "string \<Rightarrow> string \<Rightarrow> string \<Rightarrow> string" where
  "replace1 [] old new = (if old = [] then new else [])"
| "replace1 (c # cs) old new =
     (if startswith (c # cs) old then new @ drop (length old) (c # cs)
      else c # replace1 cs old new)"

subsection \<open>Exceptions\<close>

text \<open>
  \<open>RuntimeError\<close> and \<open>TypeError\<close> are raised by the module itself, with the message
  it formats.  The others come from the collaborators and pass through unchanged:
  \<open>NoSuchTableError\<close> from reflecting a table the store does not have,
  \<open>DatabaseError\<close> from a statement the store refuses, \<open>ValueCastError\<close> from the
  row conversion of the schema library, \<open>IndexError\<close> from indexing a converted row
  that is shorter than the field list.
\<close>

datatype error =
    RuntimeError string
  | TypeError string
  | NoSuchTableError string
  | DatabaseError string
  | ValueCastError string
  | IndexError

subsection \<open>Column types\<close>

text \<open>
  The module imports two families of SQLAlchemy types.  \<open>column_type\<close> are the
  generic types it instantiates when it declares a column (\<^verbatim>\<open>Text()\<close>, \<^verbatim>\<open>Integer()\<close>,
  \<^verbatim>\<open>Float()\<close>, \<^verbatim>\<open>Boolean()\<close>).  \<open>native_type\<close> are the classes of the types that
  reflection reports: the four upper-case classes the module imports, and \<open>OTHER\<close>
  for any other class, carrying the text that \<^verbatim>\<open>'%s' % column.type\<close> prints.
\<close>

datatype column_type = Text | Integer | Float | Boolean

datatype native_type = TEXT | INTEGER | FLOAT | BOOLEAN | OTHER string

text \<open>
  The store side of a column declaration, which is SQLAlchemy's and the database's and
  not the module's: a column declared with a generic type is created under the SQL type
  of the same name, and reflection reports that SQL type by its upper-case class.
\<close>

fun reflected :: "column_type \<Rightarrow> native_type" where
  "reflected Text = TEXT"
| "reflected Integer = INTEGER"
| "reflected Float = FLOAT"
| "reflected Boolean = BOOLEAN"

subsection \<open>Schema descriptors\<close>

text \<open>
  A field descriptor is a dictionary of which the module reads \<^verbatim>\<open>field['name']\<close> and
  \<^verbatim>\<open>field['type']\<close>; further keys (a format, constraints) live in the record's
  extension.  A schema descriptor is \<^verbatim>\<open>{'fields': [...]}\<close>.
\<close>

record field =
  field_name :: string
  field_type :: string

record 'f schema =
  schema_fields :: "'f list"

type_synonym column = "string \<times> column_type"

text \<open>The two \<^verbatim>\<open>mapping\<close> dictionaries.\<close>

definition convert_mapping :: "string \<rightharpoonup> column_type" where
  "convert_mapping =
     map_of [(''string'', Text), (''integer'', Integer), (''number'', Float),
             (''boolean'', Boolean)]"

definition restore_mapping :: "native_type \<rightharpoonup> string" where
  "restore_mapping =
     map_of [(TEXT, ''string''), (INTEGER, ''integer''), (FLOAT, ''number''),
             (BOOLEAN, ''boolean'')]"

text \<open>\<^verbatim>\<open>'%s' % column.type\<close>: the name of an imported class, or the text carried.\<close>

fun native_str :: "native_type \<Rightarrow> string" where
  "native_str TEXT = ''TEXT''"
| "native_str INTEGER = ''INTEGER''"
| "native_str FLOAT = ''FLOAT''"
| "native_str BOOLEAN = ''BOOLEAN''"
| "native_str (OTHER s) = s"

text \<open>
  \<^verbatim>\<open>Storage.__convert_schema\<close>: the loop over \<^verbatim>\<open>schema['fields']\<close>.  The first field
  whose type is not a key of the mapping raises; otherwise one column per field, in order.
\<close>

fun convert_fields :: "('a field_scheme) list \<Rightarrow> error + column list" where
  "convert_fields [] = Inr []"
| "convert_fields (f # fs) =
     (case convert_mapping (field_type f) of
        None \<Rightarrow> Inl (TypeError (''Type '' @ field_type f @ '' is not supported''))
      | Some ct \<Rightarrow>
          (case convert_fields fs of
             Inl e \<Rightarrow> Inl e
           | Inr columns \<Rightarrow> Inr ((field_name f, ct) # columns)))"

definition convert_schema :: "('a field_scheme) schema \<Rightarrow> error + column list" where
  "convert_schema sc = convert_fields (schema_fields sc)"

text \<open>
  \<^verbatim>\<open>Storage.__restore_schema\<close>: the loop over \<^verbatim>\<open>dbtable.columns\<close>, a list of column
  names with the class of their reflected type.
\<close>

fun restore_fields :: "(string \<times> native_type) list \<Rightarrow> error + field list" where
  "restore_fields [] = Inr []"
| "restore_fields ((name, ty) # cs) =
     (case restore_mapping ty of
        None \<Rightarrow> Inl (TypeError (''Type '' @ native_str ty @ '' is not supported''))
      | Some ft \<Rightarrow>
          (case restore_fields cs of
             Inl e \<Rightarrow> Inl e
           | Inr fs \<Rightarrow> Inr (\<lparr>field_name = name, field_type = ft\<rparr> # fs)))"

definition restore_schema :: "(string \<times> native_type) list \<Rightarrow> error + field schema" where
  "restore_schema cols =
     (case restore_fields cols of Inl e \<Rightarrow> Inl e | Inr fs \<Rightarrow> Inr \<lparr>schema_fields = fs\<rparr>)"

subsection \<open>The store\<close>

text \<open>
  The engine and the database behind it are collaborators of the module, not part of it.
  They are modelled by what the module asks of them.  Values are Python values; a float
  is outside the embedding, and no function below computes with a value.
\<close>

datatype pyval = PyStr string | PyInt int | PyBool bool | PyNone

text \<open>
  A table of the store: its columns, each with the class of its reflected type, and its
  rows, each a tuple in column order (what \<^verbatim>\<open>select([table])\<close> returns).
\<close>

record dbtable =
  tbl_columns :: "(string \<times> native_type) list"
  tbl_rows :: "pyval list list"

text \<open>
  The engine: the text \<^verbatim>\<open>'%s' % engine\<close> prints and, for every database schema
  (\<open>None\<close> is the default one), the tables in it by name, in the order
  \<^verbatim>\<open>table_names\<close> lists them.
\<close>

record engine =
  engine_str :: string
  engine_tables :: "string option \<Rightarrow> (string \<times> dbtable) list"

definition table_names :: "engine \<Rightarrow> string option \<Rightarrow> string list" where
  "table_names e sch = map fst (engine_tables e sch)"

text \<open>
  \<^verbatim>\<open>Table(name, MetaData(), autoload=True, autoload_with=engine, schema=dbschema)\<close>:
  reflection raises when the store has no table of that name.
\<close>

definition reflect_table :: "engine \<Rightarrow> string option \<Rightarrow> string \<Rightarrow> error + dbtable" where
  "reflect_table e sch name =
     (case map_of (engine_tables e sch) name of
        None \<Rightarrow> Inl (NoSuchTableError name)
      | Some t \<Rightarrow> Inr t)"

text \<open>
  \<^verbatim>\<open>Table(name, MetaData(), *columns)\<close> keeps its columns in a collection keyed by
  name: a later column replaces an earlier one of the same name.  The module leaves a
  schema with a repeated field name to its caller.
\<close>

fun column_collection :: "column list \<Rightarrow> column list" where
  "column_collection [] = []"
| "column_collection (c # cs) =
     (if fst c \<in> set (map fst cs) then column_collection cs
      else c # column_collection cs)"

text \<open>
  \<^verbatim>\<open>dbtable.create(engine)\<close>: the store refuses a name it already has; otherwise the
  table is there afterwards, empty, each column under the type the store reports for it.
\<close>

definition create_table ::
  "engine \<Rightarrow> string option \<Rightarrow> string \<Rightarrow> column list \<Rightarrow> error + engine" where
  "create_table e sch name columns =
     (if name \<in> set (table_names e sch)
      then Inl (DatabaseError (''table '' @ name @ '' already exists''))
      else Inr (e\<lparr>engine_tables := (engine_tables e)
             (sch := engine_tables e sch @
                [(name, \<lparr>tbl_columns = map (\<lambda>(n, ct). (n, reflected ct))
                                          (column_collection columns),
                          tbl_rows = []\<rparr>)])\<rparr>))"

text \<open>\<^verbatim>\<open>dbtable.drop(engine)\<close>: the store refuses a name it does not have.\<close>

definition drop_table :: "engine \<Rightarrow> string option \<Rightarrow> string \<Rightarrow> error + engine" where
  "drop_table e sch name =
     (if name \<notin> set (table_names e sch)
      then Inl (DatabaseError (''no such table: '' @ name))
      else Inr (e\<lparr>engine_tables := (engine_tables e)
             (sch := filter (\<lambda>(n, t). n \<noteq> name) (engine_tables e sch))\<rparr>))"

text \<open>
  \<^verbatim>\<open>conn.execute(table.insert(), cdata)\<close> with a list of dictionaries: one row per
  dictionary, a column taking the value under its name and NULL without one.  With an
  empty list the statement runs once without parameters and inserts one row of NULLs.
\<close>

type_synonym rdata = "(string \<times> pyval) list"

definition row_of :: "(string \<times> native_type) list \<Rightarrow> rdata \<Rightarrow> pyval list" where
  "row_of cols rd =
     map (\<lambda>(n, ty). case map_of rd n of None \<Rightarrow> PyNone | Some v \<Rightarrow> v) cols"

definition insert_rows :: "dbtable \<Rightarrow> rdata list \<Rightarrow> dbtable" where
  "insert_rows t cdata =
     t\<lparr>tbl_rows := tbl_rows t @
          (if cdata = [] then [map (\<lambda>c. PyNone) (tbl_columns t)]
           else map (row_of (tbl_columns t)) cdata)\<rparr>"

definition execute_insert ::
  "engine \<Rightarrow> string option \<Rightarrow> string \<Rightarrow> rdata list \<Rightarrow> error + engine" where
  "execute_insert e sch name cdata =
     (case map_of (engine_tables e sch) name of
        None \<Rightarrow> Inl (DatabaseError (''no such table: '' @ name))
      | Some t \<Rightarrow>
          Inr (e\<lparr>engine_tables := (engine_tables e)
             (sch := AList.update name (insert_rows t cdata) (engine_tables e sch))\<rparr>))"

subsection \<open>The Storage handle\<close>

text \<open>
  The attributes \<^verbatim>\<open>__engine\<close>, \<^verbatim>\<open>__dbschema\<close>, \<^verbatim>\<open>__prefix\<close> and \<^verbatim>\<open>__tables\<close>.
  The engine is held with the state of the store it is connected to.
\<close>

record storage =
  s_engine :: engine
  s_dbschema :: "string option"
  s_prefix :: string
  s_tables :: "string list option"

text \<open>\<^verbatim>\<open>Storage.__init__\<close>.\<close>

definition Storage :: "engine \<Rightarrow> string option \<Rightarrow> string \<Rightarrow> storage" where
  "Storage e dbschema prefix =
     \<lparr>s_engine = e, s_dbschema = dbschema, s_prefix = prefix, s_tables = None\<rparr>"

text \<open>\<^verbatim>\<open>Storage.__repr__\<close>; \<^verbatim>\<open>format\<close> prints a missing schema name as \<^verbatim>\<open>None\<close>.\<close>

definition repr :: "storage \<Rightarrow> string" where
  "repr s =
     ''Storage <'' @ engine_str (s_engine s) @ ''/'' @
       (case s_dbschema s of None \<Rightarrow> ''None'' | Some d \<Rightarrow> d) @ ''>''"

text \<open>The loop of the \<^verbatim>\<open>tables\<close> property over the names the engine lists.\<close>

fun collect :: "string \<Rightarrow> string list \<Rightarrow> string list" where
  "collect prefix [] = []"
| "collect prefix (table # rest) =
     (if startswith table prefix then replace1 table prefix [] # collect prefix rest
      else collect prefix rest)"

text \<open>
  \<^verbatim>\<open>Storage.tables\<close>: the cached listing when there is one, else the listing is
  collected from the store and saved.
\<close>

definition tables :: "storage \<Rightarrow> string list \<times> storage" where
  "tables s =
     (case s_tables s of
        None \<Rightarrow>
          (let ts = collect (s_prefix s) (table_names (s_engine s) (s_dbschema s))
           in (ts, s\<lparr>s_tables := Some ts\<rparr>))
      | Some ts \<Rightarrow> (ts, s))"

text \<open>\<^verbatim>\<open>Storage.check\<close>.\<close>

definition check :: "storage \<Rightarrow> string \<Rightarrow> bool \<times> storage" where
  "check s table = (case tables s of (ts, s1) \<Rightarrow> (table \<in> set ts, s1))"

text \<open>\<^verbatim>\<open>Storage.create\<close>.\<close>

definition create ::
  "storage \<Rightarrow> string \<Rightarrow> ('a field_scheme) schema \<Rightarrow> (error + unit) \<times> storage" where
  \<open>create s table sc =
     (case check s table of
        (True, s1) \<Rightarrow> (Inl (RuntimeError (''Table "'' @ table @ ''" is already existent.'')), s1)
      | (False, s1) \<Rightarrow>
          (case convert_schema sc of
             Inl e \<Rightarrow> (Inl e, s1)
           | Inr columns \<Rightarrow>
               (case create_table (s_engine s1) (s_dbschema s1) (s_prefix s1 @ table) columns of
                  Inl e \<Rightarrow> (Inl e, s1)
                | Inr e' \<Rightarrow> (Inr (), s1\<lparr>s_engine := e', s_tables := None\<rparr>))))\<close>

text \<open>
  \<^verbatim>\<open>Storage.delete\<close>.  The message is formatted with \<^verbatim>\<open>self\<close>, so it prints the
  handle.
\<close>

definition delete :: "storage \<Rightarrow> string \<Rightarrow> (error + unit) \<times> storage" where
  \<open>delete s table =
     (case check s table of
        (False, s1) \<Rightarrow> (Inl (RuntimeError (''Table "'' @ repr s1 @ ''" is not existent.'')), s1)
      | (True, s1) \<Rightarrow>
          (case drop_table (s_engine s1) (s_dbschema s1) (s_prefix s1 @ table) of
             Inl e \<Rightarrow> (Inl e, s1)
           | Inr e' \<Rightarrow> (Inr (), s1\<lparr>s_engine := e', s_tables := None\<rparr>)))\<close>

text \<open>\<^verbatim>\<open>Storage.describe\<close>: reflection, then the schema restored from the columns.\<close>

definition describe :: "storage \<Rightarrow> string \<Rightarrow> (error + field schema) \<times> storage" where
  "describe s table =
     (case reflect_table (s_engine s) (s_dbschema s) (s_prefix s @ table) of
        Inl e \<Rightarrow> (Inl e, s)
      | Inr dbtable \<Rightarrow> (restore_schema (tbl_columns dbtable), s))"

text \<open>\<^verbatim>\<open>Storage.read\<close>.\<close>

definition read :: "storage \<Rightarrow> string \<Rightarrow> (error + pyval list list) \<times> storage" where
  "read s table =
     (case reflect_table (s_engine s) (s_dbschema s) (s_prefix s @ table) of
        Inl e \<Rightarrow> (Inl e, s)
      | Inr dbtable \<Rightarrow> (Inr (tbl_rows dbtable), s))"

subsection \<open>Writing rows\<close>

text \<open>
  A row of \<^verbatim>\<open>data\<close> is a sequence of values or a dictionary from field names to
  values.  \<^verbatim>\<open>convert_row(*row)\<close> unpacks it by iteration: a sequence gives its values,
  a dictionary gives its keys.
\<close>

datatype row = Positional "pyval list" | Keyed "(string \<times> pyval) list"

fun unpack :: "row \<Rightarrow> pyval list" where
  "unpack (Positional vs) = vs"
| "unpack (Keyed kvs) = map (\<lambda>(k, v). PyStr k) kvs"

text \<open>
  \<^verbatim>\<open>SchemaModel(schema).convert_row\<close> belongs to the schema library.  It is a parameter
  of the model: given the fields of the schema and the unpacked values it returns the
  cast values or raises.
\<close>

type_synonym convert_row = "field list \<Rightarrow> pyval list \<Rightarrow> error + pyval list"

text \<open>
  The inner loop of \<^verbatim>\<open>Storage.write\<close>: \<^verbatim>\<open>rdata[field['name']] = row[index]\<close> for each
  field, where \<^verbatim>\<open>row[index]\<close> raises beyond the end of the converted row.
\<close>

fun fill_rdata :: "field list \<Rightarrow> pyval list \<Rightarrow> nat \<Rightarrow> rdata \<Rightarrow> error + rdata" where
  "fill_rdata [] row index rd = Inr rd"
| "fill_rdata (f # fs) row index rd =
     (if index < length row
      then fill_rdata fs row (Suc index) (AList.update (field_name f) (row ! index) rd)
      else Inl IndexError)"

text \<open>The outer loop of \<^verbatim>\<open>Storage.write\<close>, which builds \<^verbatim>\<open>cdata\<close>.\<close>

fun convert_rows :: "convert_row \<Rightarrow> field list \<Rightarrow> row list \<Rightarrow> error + rdata list" where
  "convert_rows conv fs [] = Inr []"
| "convert_rows conv fs (r # rs) =
     (case conv fs (unpack r) of
        Inl e \<Rightarrow> Inl e
      | Inr vs \<Rightarrow>
          (case fill_rdata fs vs 0 [] of
             Inl e \<Rightarrow> Inl e
           | Inr rd \<Rightarrow>
               (case convert_rows conv fs rs of
                  Inl e \<Rightarrow> Inl e
                | Inr cdata \<Rightarrow> Inr (rd # cdata))))"

text \<open>\<^verbatim>\<open>Storage.write\<close> (\<open>write\<close> is a keyword of the theory language).\<close>

definition storage_write ::
  "convert_row \<Rightarrow> storage \<Rightarrow> string \<Rightarrow> row list \<Rightarrow> (error + unit) \<times> storage" where
  "storage_write conv s table data =
     (case describe s table of
        (Inl e, s1) \<Rightarrow> (Inl e, s1)
      | (Inr sc, s1) \<Rightarrow>
          (case convert_rows conv (schema_fields sc) data of
             Inl e \<Rightarrow> (Inl e, s1)
           | Inr cdata \<Rightarrow>
               (case reflect_table (s_engine s1) (s_dbschema s1) (s_prefix s1 @ table) of
                  Inl e \<Rightarrow> (Inl e, s1)
                | Inr dbtable \<Rightarrow>
                    (case execute_insert (s_engine s1) (s_dbschema s1)
                            (s_prefix s1 @ table) cdata of
                       Inl e \<Rightarrow> (Inl e, s1)
                     | Inr e' \<Rightarrow> (Inr (), s1\<lparr>s_engine := e'\<rparr>)))))"

subsection \<open>Sample values\<close>

text \<open>
  A store with four tables in the default schema, of which three carry the prefix
  \<^verbatim>\<open>t_\<close>, a handle on it, and a schema descriptor.
\<close>

definition demo_engine :: engine where
  "demo_engine =
     \<lparr>engine_str = ''Engine(sqlite://)'',
      engine_tables = (\<lambda>sch. if sch = None
         then [(''t_a'', \<lparr>tbl_columns = [(''id'', INTEGER), (''name'', TEXT)], tbl_rows = []\<rparr>),
               (''b'', \<lparr>tbl_columns = [(''x'', FLOAT)], tbl_rows = []\<rparr>),
               (''t_d'', \<lparr>tbl_columns = [(''id'', INTEGER), (''day'', OTHER ''DATE'')],
                         tbl_rows = []\<rparr>),
               (''t_p'', \<lparr>tbl_columns = [(''name'', TEXT)], tbl_rows = []\<rparr>)]
         else [])\<rparr>"

definition demo_storage :: storage where
  "demo_storage = Storage demo_engine None ''t_''"

definition demo_schema :: "field schema" where
  "demo_schema =
     \<lparr>schema_fields = [\<lparr>field_name = ''id'', field_type = ''integer''\<rparr>,
                       \<lparr>field_name = ''name'', field_type = ''string''\<rparr>]\<rparr>"

text \<open>The two keys of a field descriptor that \<^verbatim>\<open>__restore_schema\<close> writes.\<close>

definition plain_field :: "'a field_scheme \<Rightarrow> field" where
  "plain_field f = \<lparr>field_name = field_name f, field_type = field_type f\<rparr>"

text \<open>
  A row conversion to run the write path on: a value is accepted by the field type of
  its own kind and \<^verbatim>\<open>None\<close> by any, values are paired with the fields in order.
\<close>

fun sample_cast :: "string \<Rightarrow> pyval \<Rightarrow> error + pyval" where
  "sample_cast ty (PyStr x) =
     (if ty = ''string'' then Inr (PyStr x) else Inl (ValueCastError x))"
| "sample_cast ty (PyInt i) =
     (if ty = ''integer'' then Inr (PyInt i) else Inl (ValueCastError ''int''))"
| "sample_cast ty (PyBool b) =
     (if ty = ''boolean'' then Inr (PyBool b) else Inl (ValueCastError ''bool''))"
| "sample_cast ty PyNone = Inr PyNone"

fun sample_convert_row :: convert_row where
  "sample_convert_row (f # fs) (v # vs) =
     (case sample_cast (field_type f) v of
        Inl e \<Rightarrow> Inl e
      | Inr c \<Rightarrow>
          (case sample_convert_row fs vs of
             Inl e \<Rightarrow> Inl e
           | Inr cs \<Rightarrow> Inr (c # cs)))"
| "sample_convert_row fs vs = Inr []"

section \<open>Properties\<close>

subsection \<open>The type mapping\<close>

lemma convert_mapping_Some:
  "convert_mapping t = Some c \<longleftrightarrow>
     (t = ''string'' \<and> c = Text) \<or> (t = ''integer'' \<and> c = Integer) \<or>
     (t = ''number'' \<and> c = Float) \<or> (t = ''boolean'' \<and> c = Boolean)"
  unfolding convert_mapping_def by (simp split: if_splits) blast

lemma restore_mapping_Some:
  "restore_mapping n = Some t \<longleftrightarrow>
     (n = TEXT \<and> t = ''string'') \<or> (n = INTEGER \<and> t = ''integer'') \<or>
     (n = FLOAT \<and> t = ''number'') \<or> (n = BOOLEAN \<and> t = ''boolean'')"
  unfolding restore_mapping_def by (cases n) (simp_all add: eq_commute)

lemma restore_reflected:
  "convert_mapping t = Some c \<Longrightarrow> restore_mapping (reflected c) = Some t"
  unfolding convert_mapping_Some restore_mapping_Some by (cases c) simp_all

text \<open>
  Claim C2.  Each of the four logical types \<open>string\<close>, \<open>integer\<close>, \<open>number\<close>,
  \<open>boolean\<close> has a column type, and the type reflected for a column of that type maps
  back to the logical type it came from.  Both dictionaries are injective: two logical
  types with the same column type are equal, and two native types with the same logical
  type are equal.
\<close>

theorem type_mapping_roundtrip_bijective:
  "(\<forall>t \<in> {''string'', ''integer'', ''number'', ''boolean''}.
      \<exists>c. convert_mapping t = Some c \<and> restore_mapping (reflected c) = Some t) \<and>
   (\<forall>t1 t2 c. convert_mapping t1 = Some c \<and> convert_mapping t2 = Some c \<longrightarrow> t1 = t2) \<and>
   (\<forall>n1 n2 t. restore_mapping n1 = Some t \<and> restore_mapping n2 = Some t \<longrightarrow> n1 = n2)"
proof (intro conjI ballI allI impI)
  fix t :: string
  assume "t \<in> {''string'', ''integer'', ''number'', ''boolean''}"
  then have "\<exists>c. convert_mapping t = Some c"
    unfolding convert_mapping_Some by blast
  then show "\<exists>c. convert_mapping t = Some c \<and> restore_mapping (reflected c) = Some t"
    using restore_reflected by blast
next
  fix t1 t2 c
  assume "convert_mapping t1 = Some c \<and> convert_mapping t2 = Some c"
  then show "t1 = t2"
    unfolding convert_mapping_Some by (cases c) simp_all
next
  fix n1 n2 t
  assume "restore_mapping n1 = Some t \<and> restore_mapping n2 = Some t"
  then show "n1 = n2"
    unfolding restore_mapping_Some by (cases n1; cases n2) simp_all
qed

theorem type_mapping_roundtrip_bijective_witness:
  "convert_mapping ''number'' = Some Float \<and>
   restore_mapping (reflected Float) = Some ''number''"
proof -
  have "\<exists>c. convert_mapping ''number'' = Some c \<and>
          restore_mapping (reflected c) = Some ''number''"
    using type_mapping_roundtrip_bijective by blast
  then show ?thesis
    unfolding convert_mapping_Some by simp
qed

subsection \<open>The table listing\<close>

lemma startswith_append: "startswith s p \<longleftrightarrow> (\<exists>r. s = p @ r)"
  by (induction s p rule: startswith.induct) auto

lemma replace1_startswith: "startswith s p \<Longrightarrow> replace1 s p [] = drop (length p) s"
  by (cases s) (auto simp: startswith_append)

lemma collect_map_filter:
  "collect p ns = map (drop (length p)) (filter (\<lambda>n. startswith n p) ns)"
  by (induction ns) (simp_all add: replace1_startswith)

lemma set_collect: "set (collect p ns) = {t. p @ t \<in> set ns}"
  by (induction ns) (auto simp: replace1_startswith startswith_append)

lemma tables_fresh:
  "s_tables s = None \<Longrightarrow>
     tables s = (collect (s_prefix s) (table_names (s_engine s) (s_dbschema s)),
                 s\<lparr>s_tables := Some (collect (s_prefix s) (table_names (s_engine s) (s_dbschema s)))\<rparr>)"
  by (simp add: tables_def Let_def)

lemma tables_cached: "s_tables s = Some ts \<Longrightarrow> tables s = (ts, s)"
  by (simp add: tables_def)

lemma tables_keeps:
  "s_engine (snd (tables s)) = s_engine s"
  "s_dbschema (snd (tables s)) = s_dbschema s"
  "s_prefix (snd (tables s)) = s_prefix s"
  by (simp_all add: tables_def Let_def split: option.split)

lemma check_keeps:
  "s_engine (snd (check s t)) = s_engine s"
  "s_dbschema (snd (check s t)) = s_dbschema s"
  "s_prefix (snd (check s t)) = s_prefix s"
  by (simp_all add: check_def tables_def Let_def split: option.split)

lemma check_fresh:
  "s_tables s = None \<Longrightarrow>
     fst (check s t) \<longleftrightarrow> s_prefix s @ t \<in> set (table_names (s_engine s) (s_dbschema s))"
  by (simp add: check_def tables_fresh set_collect)

text \<open>
  Claim C8.  With no cached listing, the listing is the store's names that start with
  the prefix, in the store's order, each without its first \<open>length prefix\<close>
  characters; a name starts with the prefix exactly when it is the prefix followed by
  something, so a table is listed exactly when the store has the prefix followed by its
  name.  The listing is saved, and the saved listing is returned whatever the store
  holds by then.
\<close>

theorem tables_listing:
  assumes "s_tables s = None"
  shows "fst (tables s) =
           map (drop (length (s_prefix s)))
             (filter (\<lambda>n. startswith n (s_prefix s)) (table_names (s_engine s) (s_dbschema s))) \<and>
         (\<forall>n. startswith n (s_prefix s) \<longleftrightarrow> (\<exists>t. n = s_prefix s @ t)) \<and>
         set (fst (tables s)) = {t. s_prefix s @ t \<in> set (table_names (s_engine s) (s_dbschema s))} \<and>
         s_tables (snd (tables s)) = Some (fst (tables s)) \<and>
         (\<forall>e. tables ((snd (tables s))\<lparr>s_engine := e\<rparr>) =
               (fst (tables s), (snd (tables s))\<lparr>s_engine := e\<rparr>))"
proof (intro conjI allI)
  show "fst (tables s) =
          map (drop (length (s_prefix s)))
            (filter (\<lambda>n. startswith n (s_prefix s)) (table_names (s_engine s) (s_dbschema s)))"
    using assms by (simp add: tables_fresh collect_map_filter)
  show "startswith n (s_prefix s) \<longleftrightarrow> (\<exists>t. n = s_prefix s @ t)" for n
    by (rule startswith_append)
  show "set (fst (tables s)) =
          {t. s_prefix s @ t \<in> set (table_names (s_engine s) (s_dbschema s))}"
    using assms by (simp add: tables_fresh set_collect)
  show "s_tables (snd (tables s)) = Some (fst (tables s))"
    using assms by (simp add: tables_fresh)
  then show "tables ((snd (tables s))\<lparr>s_engine := e\<rparr>) =
          (fst (tables s), (snd (tables s))\<lparr>s_engine := e\<rparr>)" for e
    by (simp add: tables_cached)
qed

lemma demo_storage_simps:
  "s_engine demo_storage = demo_engine" "s_dbschema demo_storage = None"
  "s_prefix demo_storage = ''t_''" "s_tables demo_storage = None"
  by (simp_all add: demo_storage_def Storage_def)

lemma demo_names: "table_names demo_engine None = [''t_a'', ''b'', ''t_d'', ''t_p'']"
  by (simp add: demo_engine_def table_names_def)

theorem tables_listing_witness:
  "s_tables demo_storage = None \<and> fst (tables demo_storage) = [''a'', ''d'', ''p''] \<and>
   s_tables (snd (tables demo_storage)) = Some [''a'', ''d'', ''p'']"
proof -
  have n: "s_tables demo_storage = None"
    by (simp add: demo_storage_simps)
  have "fst (tables demo_storage) = [''a'', ''d'', ''p'']"
    using tables_listing [OF n] by (simp add: demo_names demo_storage_simps)
  then show ?thesis
    using tables_listing [OF n] n by simp
qed

subsection \<open>Conflicts of existence\<close>

lemma repr_check: "repr (snd (check s t)) = repr s"
  by (simp add: repr_def check_keeps)

lemma check_split: "check s t = (fst (check s t), snd (check s t))"
  by simp

lemma create_existing:
  \<open>fst (check s t) \<Longrightarrow>
     create s t sc = (Inl (RuntimeError (''Table "'' @ t @ ''" is already existent.'')), snd (check s t))\<close>
  by (cases "check s t") (simp add: create_def)

lemma delete_missing:
  \<open>\<not> fst (check s t) \<Longrightarrow>
     delete s t = (Inl (RuntimeError (''Table "'' @ repr s @ ''" is not existent.'')), snd (check s t))\<close>
  using repr_check [of s t] by (cases "check s t") (simp add: delete_def)

lemma reflect_missing:
  "name \<notin> set (table_names e sch) \<Longrightarrow> reflect_table e sch name = Inl (NoSuchTableError name)"
proof -
  assume "name \<notin> set (table_names e sch)"
  then have "map_of (engine_tables e sch) name = None"
    by (simp add: map_of_eq_None_iff table_names_def)
  then show ?thesis
    by (simp add: reflect_table_def)
qed

lemma describe_missing:
  "s_prefix s @ t \<notin> set (table_names (s_engine s) (s_dbschema s)) \<Longrightarrow>
     describe s t = (Inl (NoSuchTableError (s_prefix s @ t)), s)"
  by (simp add: describe_def reflect_missing)

text \<open>
  Claim C3.  \<^verbatim>\<open>create\<close> on a table the listing has raises \<open>RuntimeError\<close>, and
  \<^verbatim>\<open>delete\<close> on a table the listing does not have raises \<open>RuntimeError\<close>; both leave
  the store as it was, the handle having at most saved the listing.  \<^verbatim>\<open>describe\<close>
  on a table the store does not have raises the \<open>NoSuchTableError\<close> of reflection and
  changes nothing.
\<close>

theorem lifecycle_conflicts:
  \<open>(fst (check s t) \<longrightarrow>
      create s t sc =
        (Inl (RuntimeError (''Table "'' @ t @ ''" is already existent.'')), snd (check s t)) \<and>
      s_engine (snd (create s t sc)) = s_engine s) \<and>
   (\<not> fst (check s t) \<longrightarrow>
      (\<exists>m. delete s t = (Inl (RuntimeError m), snd (check s t))) \<and>
      s_engine (snd (delete s t)) = s_engine s) \<and>
   (s_prefix s @ t \<notin> set (table_names (s_engine s) (s_dbschema s)) \<longrightarrow>
      describe s t = (Inl (NoSuchTableError (s_prefix s @ t)), s))\<close>
  by (simp add: create_existing delete_missing describe_missing check_keeps)

lemma demo_check_a: "fst (check demo_storage ''a'')"
  by (simp add: check_fresh demo_names demo_storage_simps)

lemma demo_check_zz: "\<not> fst (check demo_storage ''zz'')"
  by (simp add: check_fresh demo_names demo_storage_simps)

theorem lifecycle_conflicts_witness:
  \<open>fst (check demo_storage ''a'') \<and>
   fst (create demo_storage ''a'' \<lparr>schema_fields = [\<lparr>field_name = ''id'', field_type = ''integer''\<rparr>]\<rparr>) =
     Inl (RuntimeError ''Table "a" is already existent.'') \<and>
   \<not> fst (check demo_storage ''zz'') \<and>
   s_engine (snd (delete demo_storage ''zz'')) = demo_engine \<and>
   fst (describe demo_storage ''zz'') = Inl (NoSuchTableError ''t_zz'')\<close>
proof -
  have m: "s_prefix demo_storage @ ''zz'' \<notin>
             set (table_names (s_engine demo_storage) (s_dbschema demo_storage))"
    by (simp add: demo_names demo_storage_simps)
  note e = demo_storage_simps
  show ?thesis
    using lifecycle_conflicts [of demo_storage "''a''"
            "\<lparr>schema_fields = [\<lparr>field_name = ''id'', field_type = ''integer''\<rparr>]\<rparr>"]
          lifecycle_conflicts [of demo_storage "''zz''"
            "\<lparr>schema_fields = [\<lparr>field_name = ''id'', field_type = ''integer''\<rparr>]\<rparr>"]
          demo_check_a demo_check_zz m
    by (simp add: e)
qed

text \<open>
  Claim C10.  The message of \<^verbatim>\<open>delete\<close> on a table the listing does not have prints
  the handle, so it is the same for any two such tables; the message of \<^verbatim>\<open>create\<close>
  on a table the listing has prints the table name.
\<close>

theorem delete_message_names_handle:
  \<open>(\<not> fst (check s t) \<longrightarrow>
      fst (delete s t) = Inl (RuntimeError (''Table "'' @ repr s @ ''" is not existent.''))) \<and>
   (\<not> fst (check s t) \<and> \<not> fst (check s t') \<longrightarrow> fst (delete s t) = fst (delete s t')) \<and>
   (fst (check s t) \<longrightarrow>
      fst (create s t sc) = Inl (RuntimeError (''Table "'' @ t @ ''" is already existent.'')))\<close>
  by (simp add: create_existing delete_missing)

theorem delete_message_names_handle_witness:
  \<open>\<not> fst (check demo_storage ''zz'') \<and>
   fst (delete demo_storage ''zz'') =
     Inl (RuntimeError ''Table "Storage <Engine(sqlite://)/None>" is not existent.'')\<close>
  using delete_message_names_handle [of demo_storage "''zz''" "''zz''"
          "\<lparr>schema_fields = [] :: field list\<rparr>"] demo_check_zz
  by (simp add: repr_def demo_storage_simps demo_engine_def)

subsection \<open>Creating and deleting\<close>

lemma create_table_names:
  "create_table e sch n cols = Inr e' \<Longrightarrow> table_names e' sch = table_names e sch @ [n]"
  by (auto simp: create_table_def table_names_def split: if_splits)

lemma drop_table_names:
  "drop_table e sch n = Inr e' \<Longrightarrow> n \<notin> set (table_names e' sch)"
  by (auto simp: drop_table_def table_names_def split: if_splits)

lemma create_success:
  assumes "create s t sc = (Inr (), s')"
  shows "\<exists>cols e'. convert_schema sc = Inr cols \<and>
           create_table (s_engine s) (s_dbschema s) (s_prefix s @ t) cols = Inr e' \<and>
           s' = (snd (check s t))\<lparr>s_engine := e', s_tables := None\<rparr> \<and> \<not> fst (check s t)"
  using assms check_keeps [of s t]
  by (cases "check s t") (auto simp: create_def split: bool.splits sum.splits)

lemma delete_success:
  assumes "delete s t = (Inr (), s')"
  shows "\<exists>e'. drop_table (s_engine s) (s_dbschema s) (s_prefix s @ t) = Inr e' \<and>
           s' = (snd (check s t))\<lparr>s_engine := e', s_tables := None\<rparr> \<and> fst (check s t)"
  using assms check_keeps [of s t]
  by (cases "check s t") (auto simp: delete_def split: bool.splits sum.splits)

text \<open>
  Claim C4.  A \<^verbatim>\<open>create\<close> or \<^verbatim>\<open>delete\<close> that returns has cleared the cached
  listing; \<^verbatim>\<open>check\<close> right after a \<^verbatim>\<open>create\<close> is true and right after a
  \<^verbatim>\<open>delete\<close> is false.
\<close>

theorem mutation_invalidates_cache:
  "(create s t sc = (Inr (), s') \<longrightarrow> s_tables s' = None \<and> fst (check s' t)) \<and>
   (delete s t = (Inr (), s'') \<longrightarrow> s_tables s'' = None \<and> \<not> fst (check s'' t))"
proof (intro conjI impI)
  assume c: "create s t sc = (Inr (), s')"
  from create_success [OF c] obtain cols e' where
    ct: "create_table (s_engine s) (s_dbschema s) (s_prefix s @ t) cols = Inr e'" and
    s': "s' = (snd (check s t))\<lparr>s_engine := e', s_tables := None\<rparr>"
    by blast
  show "s_tables s' = None"
    by (simp add: s')
  then show "fst (check s' t)"
    using create_table_names [OF ct] by (simp add: check_fresh) (simp add: s' check_keeps)
next
  assume d: "delete s t = (Inr (), s'')"
  from delete_success [OF d] obtain e' where
    dt: "drop_table (s_engine s) (s_dbschema s) (s_prefix s @ t) = Inr e'" and
    s'': "s'' = (snd (check s t))\<lparr>s_engine := e', s_tables := None\<rparr>"
    by blast
  show "s_tables s'' = None"
    by (simp add: s'')
  then show "\<not> fst (check s'' t)"
    using drop_table_names [OF dt] by (simp add: check_fresh) (simp add: s'' check_keeps)
qed

subsection \<open>Create, then describe\<close>

lemma supported_iff:
  "t \<in> {''string'', ''integer'', ''number'', ''boolean''} \<longleftrightarrow> convert_mapping t \<noteq> None"
proof
  assume "t \<in> {''string'', ''integer'', ''number'', ''boolean''}"
  then have "\<exists>c. convert_mapping t = Some c"
    unfolding convert_mapping_Some by blast
  then show "convert_mapping t \<noteq> None" by auto
next
  assume "convert_mapping t \<noteq> None"
  then obtain c where "convert_mapping t = Some c" by auto
  then show "t \<in> {''string'', ''integer'', ''number'', ''boolean''}"
    unfolding convert_mapping_Some by blast
qed

lemma convert_fields_supported:
  "\<forall>f \<in> set fs. convert_mapping (field_type f) \<noteq> None \<Longrightarrow>
     \<exists>cols. convert_fields fs = Inr cols \<and> map fst cols = map field_name fs \<and>
       restore_fields (map (\<lambda>(n, ct). (n, reflected ct)) cols) = Inr (map plain_field fs)"
proof (induction fs)
  case Nil
  then show ?case by simp
next
  case (Cons f fs)
  then obtain cols where cols: "convert_fields fs = Inr cols" "map fst cols = map field_name fs"
      "restore_fields (map (\<lambda>(n, ct). (n, reflected ct)) cols) = Inr (map plain_field fs)"
    by auto
  from Cons.prems obtain ct where ct: "convert_mapping (field_type f) = Some ct"
    by auto
  have "restore_mapping (reflected ct) = Some (field_type f)"
    using ct by (rule restore_reflected)
  then show ?case
    using cols ct by (simp add: plain_field_def)
qed

lemma column_collection_distinct:
  "distinct (map fst cs) \<Longrightarrow> column_collection cs = cs"
  by (induction cs) auto

lemma reflect_created:
  assumes "name \<notin> set (table_names e sch)"
  shows "\<exists>e'. create_table e sch name cols = Inr e' \<and>
           reflect_table e' sch name =
             Inr \<lparr>tbl_columns = map (\<lambda>(n, ct). (n, reflected ct)) (column_collection cols),
                  tbl_rows = []\<rparr>"
proof -
  have "map_of (engine_tables e sch) name = None"
    using assms by (simp add: map_of_eq_None_iff table_names_def)
  then show ?thesis
    using assms by (simp add: create_table_def reflect_table_def map_add_def)
qed

lemma create_then_describe:
  assumes "\<forall>f \<in> set (schema_fields sc).
             field_type f \<in> {''string'', ''integer'', ''number'', ''boolean''}"
      and "distinct (map field_name (schema_fields sc))"
      and "\<not> fst (check s t)"
      and "s_prefix s @ t \<notin> set (table_names (s_engine s) (s_dbschema s))"
  shows "\<exists>s1. create s t sc = (Inr (), s1) \<and>
           describe s1 t = (Inr \<lparr>schema_fields = map plain_field (schema_fields sc)\<rparr>, s1)"
proof -
  from assms(1) have "\<forall>f \<in> set (schema_fields sc). convert_mapping (field_type f) \<noteq> None"
    by (simp only: supported_iff)
  from convert_fields_supported [OF this] obtain cols where
    cols: "convert_fields (schema_fields sc) = Inr cols"
      "map fst cols = map field_name (schema_fields sc)"
      "restore_fields (map (\<lambda>(n, ct). (n, reflected ct)) cols) =
         Inr (map plain_field (schema_fields sc))"
    by blast
  have cc: "column_collection cols = cols"
    using assms(2) cols(2) by (simp add: column_collection_distinct)
  from reflect_created [OF assms(4), of cols] obtain e' where
    e': "create_table (s_engine s) (s_dbschema s) (s_prefix s @ t) cols = Inr e'"
      "reflect_table e' (s_dbschema s) (s_prefix s @ t) =
         Inr \<lparr>tbl_columns = map (\<lambda>(n, ct). (n, reflected ct)) cols, tbl_rows = []\<rparr>"
    by (auto simp: cc)
  let ?s1 = "(snd (check s t))\<lparr>s_engine := e', s_tables := None\<rparr>"
  have "create s t sc = (Inr (), ?s1)"
    using assms(3) cols(1) e'(1) check_keeps [of s t]
    by (cases "check s t") (simp add: create_def convert_schema_def)
  moreover have "describe ?s1 t =
      (Inr \<lparr>schema_fields = map plain_field (schema_fields sc)\<rparr>, ?s1)"
    using e'(2) cols(3) by (simp add: describe_def check_keeps restore_schema_def)
  ultimately show ?thesis by blast
qed

text \<open>
  Claim C5.  For a schema whose field types are among \<open>string\<close>, \<open>integer\<close>,
  \<open>number\<close>, \<open>boolean\<close> and whose field names are distinct, and a table that
  neither the listing nor the store has, \<^verbatim>\<open>create\<close> returns and \<^verbatim>\<open>describe\<close> then
  returns the same field names, in the same order, each with its type.
\<close>

theorem create_describe_roundtrip:
  assumes "\<forall>f \<in> set (schema_fields sc).
             field_type f \<in> {''string'', ''integer'', ''number'', ''boolean''}"
      and "distinct (map field_name (schema_fields sc))"
      and "\<not> fst (check s t)"
      and "s_prefix s @ t \<notin> set (table_names (s_engine s) (s_dbschema s))"
  shows "\<exists>s1. create s t sc = (Inr (), s1) \<and>
           describe s1 t = (Inr \<lparr>schema_fields = map plain_field (schema_fields sc)\<rparr>, s1)"
  using assms by (rule create_then_describe)

lemma demo_check_c: "\<not> fst (check demo_storage ''c'')"
  by (simp add: check_fresh demo_names demo_storage_simps)

lemma demo_schema_ok:
  "\<forall>f \<in> set (schema_fields demo_schema).
     field_type f \<in> {''string'', ''integer'', ''number'', ''boolean''}"
  "distinct (map field_name (schema_fields demo_schema))"
  "map plain_field (schema_fields demo_schema) = schema_fields demo_schema"
  by (simp_all add: demo_schema_def plain_field_def)

lemma demo_absent_c:
  "s_prefix demo_storage @ ''c'' \<notin> set (table_names (s_engine demo_storage) (s_dbschema demo_storage))"
  by (simp add: demo_names demo_storage_simps)

theorem create_describe_roundtrip_witness:
  "\<not> fst (check demo_storage ''c'') \<and>
   fst (create demo_storage ''c'' demo_schema) = Inr () \<and>
   fst (describe (snd (create demo_storage ''c'' demo_schema)) ''c'') = Inr demo_schema"
proof -
  from create_describe_roundtrip [OF demo_schema_ok(1) demo_schema_ok(2) demo_check_c demo_absent_c]
  obtain s1 where "create demo_storage ''c'' demo_schema = (Inr (), s1)"
    "describe s1 ''c'' = (Inr \<lparr>schema_fields = map plain_field (schema_fields demo_schema)\<rparr>, s1)"
    by blast
  then show ?thesis
    using demo_check_c by (simp add: demo_schema_ok(3))
qed

lemma demo_create_c: "fst (create demo_storage ''c'' demo_schema) = Inr ()"
  using create_then_describe [OF demo_schema_ok(1) demo_schema_ok(2) demo_check_c demo_absent_c]
  by auto

lemma delete_present:
  assumes "fst (check s t)"
      and "s_prefix s @ t \<in> set (table_names (s_engine s) (s_dbschema s))"
  shows "fst (delete s t) = Inr ()"
  using assms check_keeps [of s t]
  by (cases "check s t") (simp add: delete_def drop_table_def)

lemma demo_delete_a: "fst (delete demo_storage ''a'') = Inr ()"
  using demo_check_a by (rule delete_present) (simp add: demo_storage_simps demo_names)

theorem mutation_invalidates_cache_witness:
  "fst (create demo_storage ''c'' demo_schema) = Inr () \<and>
   fst (check (snd (create demo_storage ''c'' demo_schema)) ''c'') \<and>
   fst (delete demo_storage ''a'') = Inr () \<and>
   \<not> fst (check (snd (delete demo_storage ''a'')) ''a'')"
proof -
  have c: "create demo_storage ''c'' demo_schema =
             (Inr (), snd (create demo_storage ''c'' demo_schema))"
    using demo_create_c by (metis prod.collapse)
  have d: "delete demo_storage ''a'' = (Inr (), snd (delete demo_storage ''a''))"
    using demo_delete_a by (metis prod.collapse)
  show ?thesis
    using mutation_invalidates_cache [of demo_storage "''c''" demo_schema
            "snd (create demo_storage ''c'' demo_schema)" "snd (delete demo_storage ''a'')"]
          mutation_invalidates_cache [of demo_storage "''a''" demo_schema
            "snd (create demo_storage ''c'' demo_schema)" "snd (delete demo_storage ''a'')"]
          c d demo_create_c demo_delete_a
    by simp
qed

subsection \<open>Unsupported types\<close>

lemma native_supported_iff:
  "ty \<in> {TEXT, INTEGER, FLOAT, BOOLEAN} \<longleftrightarrow> restore_mapping ty \<noteq> None"
  by (cases ty) (simp_all add: restore_mapping_def)

lemma convert_fields_first_bad:
  "\<forall>g \<in> set pre. convert_mapping (field_type g) \<noteq> None \<Longrightarrow>
   convert_mapping (field_type f) = None \<Longrightarrow>
     convert_fields (pre @ f # post) =
       Inl (TypeError (''Type '' @ field_type f @ '' is not supported''))"
  by (induction pre) auto

lemma restore_fields_first_bad:
  "\<forall>c \<in> set cpre. restore_mapping (snd c) \<noteq> None \<Longrightarrow>
   restore_mapping ty = None \<Longrightarrow>
     restore_fields (cpre @ (n, ty) # cpost) =
       Inl (TypeError (''Type '' @ native_str ty @ '' is not supported''))"
  by (induction cpre) auto

lemma create_unsupported:
  assumes "schema_fields sc = pre @ f # post"
      and "\<forall>g \<in> set pre. convert_mapping (field_type g) \<noteq> None"
      and "convert_mapping (field_type f) = None"
      and "\<not> fst (check s t)"
  shows "create s t sc =
           (Inl (TypeError (''Type '' @ field_type f @ '' is not supported'')), snd (check s t))"
  using assms(4) convert_fields_first_bad [OF assms(2,3), of post]
  by (cases "check s t") (simp add: create_def convert_schema_def assms(1))

lemma describe_unsupported:
  assumes "reflect_table (s_engine s) (s_dbschema s) (s_prefix s @ t) = Inr dbt"
      and "tbl_columns dbt = cpre @ (n, ty) # cpost"
      and "\<forall>c \<in> set cpre. restore_mapping (snd c) \<noteq> None"
      and "restore_mapping ty = None"
  shows "describe s t =
           (Inl (TypeError (''Type '' @ native_str ty @ '' is not supported'')), s)"
  using restore_fields_first_bad [OF assms(3,4), of n cpost]
  by (simp add: describe_def assms(1,2) restore_schema_def)

text \<open>
  Claim C6.  When the first field of a schema whose type is not one of \<open>string\<close>,
  \<open>integer\<close>, \<open>number\<close>, \<open>boolean\<close> has type \<open>ty\<close>, \<^verbatim>\<open>create\<close> on a table the
  listing does not have raises \<open>TypeError\<close> with the message
  \<^verbatim>\<open>Type ty is not supported\<close> and leaves the store as it was.  When the first column of
  a reflected table whose type is not one of \<open>TEXT\<close>, \<open>INTEGER\<close>, \<open>FLOAT\<close>,
  \<open>BOOLEAN\<close> has type \<open>ty\<close>, \<^verbatim>\<open>describe\<close> raises \<open>TypeError\<close> naming it, and
  returns no schema.
\<close>

theorem unsupported_type_fatal:
  "(schema_fields sc = pre @ f # post \<and>
    (\<forall>g \<in> set pre. field_type g \<in> {''string'', ''integer'', ''number'', ''boolean''}) \<and>
    field_type f \<notin> {''string'', ''integer'', ''number'', ''boolean''} \<and>
    \<not> fst (check s t) \<longrightarrow>
      create s t sc =
        (Inl (TypeError (''Type '' @ field_type f @ '' is not supported'')), snd (check s t)) \<and>
      s_engine (snd (create s t sc)) = s_engine s) \<and>
   (reflect_table (s_engine s) (s_dbschema s) (s_prefix s @ t) = Inr dbt \<and>
    tbl_columns dbt = cpre @ (n, ty) # cpost \<and>
    (\<forall>c \<in> set cpre. snd c \<in> {TEXT, INTEGER, FLOAT, BOOLEAN}) \<and>
    ty \<notin> {TEXT, INTEGER, FLOAT, BOOLEAN} \<longrightarrow>
      describe s t =
        (Inl (TypeError (''Type '' @ native_str ty @ '' is not supported'')), s))"
proof (intro conjI impI)
  assume a: "schema_fields sc = pre @ f # post \<and>
    (\<forall>g \<in> set pre. field_type g \<in> {''string'', ''integer'', ''number'', ''boolean''}) \<and>
    field_type f \<notin> {''string'', ''integer'', ''number'', ''boolean''} \<and>
    \<not> fst (check s t)"
  then have b: "\<forall>g \<in> set pre. convert_mapping (field_type g) \<noteq> None"
    "convert_mapping (field_type f) = None"
    by (simp_all only: supported_iff) simp_all
  from a have "schema_fields sc = pre @ f # post" and "\<not> fst (check s t)"
    by blast+
  then show c: "create s t sc =
        (Inl (TypeError (''Type '' @ field_type f @ '' is not supported'')), snd (check s t))"
    using b by (blast intro: create_unsupported)
  show "s_engine (snd (create s t sc)) = s_engine s"
    by (simp add: c check_keeps)
next
  assume a: "reflect_table (s_engine s) (s_dbschema s) (s_prefix s @ t) = Inr dbt \<and>
    tbl_columns dbt = cpre @ (n, ty) # cpost \<and>
    (\<forall>c \<in> set cpre. snd c \<in> {TEXT, INTEGER, FLOAT, BOOLEAN}) \<and>
    ty \<notin> {TEXT, INTEGER, FLOAT, BOOLEAN}"
  then have b: "\<forall>c \<in> set cpre. restore_mapping (snd c) \<noteq> None"
    "restore_mapping ty = None"
    by (simp_all only: native_supported_iff) simp_all
  from a have "reflect_table (s_engine s) (s_dbschema s) (s_prefix s @ t) = Inr dbt"
    and "tbl_columns dbt = cpre @ (n, ty) # cpost"
    by blast+
  then show "describe s t =
        (Inl (TypeError (''Type '' @ native_str ty @ '' is not supported'')), s)"
    using b by (blast intro: describe_unsupported)
qed

theorem unsupported_type_fatal_witness:
  "\<not> fst (check demo_storage ''c'') \<and>
   fst (create demo_storage ''c''
          \<lparr>schema_fields = [\<lparr>field_name = ''bad_field'', field_type = ''any''\<rparr>]\<rparr>) =
     Inl (TypeError ''Type any is not supported'') \<and>
   describe demo_storage ''d'' = (Inl (TypeError ''Type DATE is not supported''), demo_storage)"
proof -
  have r: "reflect_table (s_engine demo_storage) (s_dbschema demo_storage)
             (s_prefix demo_storage @ ''d'') =
           Inr \<lparr>tbl_columns = [(''id'', INTEGER), (''day'', OTHER ''DATE'')], tbl_rows = []\<rparr>"
    by (simp add: demo_storage_simps reflect_table_def demo_engine_def)
  show ?thesis
    using unsupported_type_fatal [of
        "\<lparr>schema_fields = [\<lparr>field_name = ''bad_field'', field_type = ''any''\<rparr>]\<rparr>"
        "[]" "\<lparr>field_name = ''bad_field'', field_type = ''any''\<rparr>" "[]"
        demo_storage "''c''"
        "\<lparr>tbl_columns = [(''id'', INTEGER), (''day'', OTHER ''DATE'')], tbl_rows = []\<rparr>"
        "[(''id'', INTEGER)]" "''day''" "OTHER ''DATE''" "[]"]
      unsupported_type_fatal [of
        "\<lparr>schema_fields = [\<lparr>field_name = ''bad_field'', field_type = ''any''\<rparr>]\<rparr>"
        "[]" "\<lparr>field_name = ''bad_field'', field_type = ''any''\<rparr>" "[]"
        demo_storage "''d''"
        "\<lparr>tbl_columns = [(''id'', INTEGER), (''day'', OTHER ''DATE'')], tbl_rows = []\<rparr>"
        "[(''id'', INTEGER)]" "''day''" "OTHER ''DATE''" "[]"]
      demo_check_c r
    by simp
qed

subsection \<open>Writing a batch\<close>

lemma describe_state: "snd (describe s t) = s"
  by (simp add: describe_def split: sum.split)

lemma fill_rdata_long:
  "index + length fs \<le> length row \<Longrightarrow> \<exists>rd'. fill_rdata fs row index rd = Inr rd'"
  by (induction fs row index rd rule: fill_rdata.induct) auto

lemma update_fresh:
  "k \<notin> fst ` set rd \<Longrightarrow> AList.update k v rd = rd @ [(k, v)]"
  by (induction rd) auto

lemma fill_rdata_zip:
  "distinct (map field_name fs) \<Longrightarrow> set (map field_name fs) \<inter> fst ` set rd = {} \<Longrightarrow>
   index + length fs \<le> length row \<Longrightarrow>
     fill_rdata fs row index rd = Inr (rd @ zip (map field_name fs) (drop index row))"
proof (induction fs row index rd rule: fill_rdata.induct)
  case (1 row index rd)
  then show ?case by simp
next
  case (2 f fs row index rd)
  have fresh: "field_name f \<notin> fst ` set rd"
    using "2.prems"(2) by auto
  have lt: "index < length row"
    using "2.prems"(3) by simp
  have "set (map field_name fs) \<inter> fst ` set (AList.update (field_name f) (row ! index) rd) = {}"
    using "2.prems"(1,2) by (auto simp: update_fresh [OF fresh])
  with "2.IH" [OF lt] "2.prems" have
    "fill_rdata fs row (Suc index) (AList.update (field_name f) (row ! index) rd) =
       Inr (AList.update (field_name f) (row ! index) rd @
            zip (map field_name fs) (drop (Suc index) row))"
    by simp
  then show ?case
    using lt by (simp add: update_fresh [OF fresh] Cons_nth_drop_Suc [symmetric])
qed

lemma convert_rows_first_bad:
  "\<forall>p \<in> set pre. \<exists>vs. conv fs (unpack p) = Inr vs \<and> length fs \<le> length vs \<Longrightarrow>
   conv fs (unpack r) = Inl e \<Longrightarrow>
     convert_rows conv fs (pre @ r # post) = Inl e"
proof (induction pre)
  case Nil
  then show ?case by simp
next
  case (Cons p pre)
  then obtain vs where vs: "conv fs (unpack p) = Inr vs" "length fs \<le> length vs"
    by auto
  have "\<exists>rd. fill_rdata fs vs 0 [] = Inr rd"
    using vs(2) by (simp add: fill_rdata_long)
  then show ?case
    using Cons vs by auto
qed

lemma convert_rows_some_bad:
  "r \<in> set data \<Longrightarrow> conv fs (unpack r) = Inl e \<Longrightarrow> \<exists>e'. convert_rows conv fs data = Inl e'"
  by (induction data) (auto split: sum.splits)

lemma write_convert_error:
  assumes "describe s t = (Inr sc, s)"
      and "convert_rows conv (schema_fields sc) data = Inl e"
  shows "storage_write conv s t data = (Inl e, s)"
  using assms by (simp add: storage_write_def)

text \<open>
  Claim C7.  On a table that \<^verbatim>\<open>describe\<close> gives a schema for, a batch with a row
  whose conversion raises makes \<^verbatim>\<open>write\<close> raise and leaves the handle and the store
  as they were, so \<^verbatim>\<open>read\<close> returns what it returned before.  When the rows before
  the first such row convert to at least one value per field, the error raised is the one
  of that row's conversion.
\<close>

theorem write_cast_failure_unchanged:
  assumes "describe s t = (Inr sc, s)"
  shows "(r \<in> set data \<and> conv (schema_fields sc) (unpack r) = Inl e \<longrightarrow>
            (\<exists>e'. storage_write conv s t data = (Inl e', s)) \<and>
            read (snd (storage_write conv s t data)) t = read s t) \<and>
         (data = pre @ r # post \<and>
          (\<forall>p \<in> set pre. \<exists>vs. conv (schema_fields sc) (unpack p) = Inr vs \<and>
                               length (schema_fields sc) \<le> length vs) \<and>
          conv (schema_fields sc) (unpack r) = Inl e \<longrightarrow>
            storage_write conv s t data = (Inl e, s))"
proof (intro conjI impI)
  assume a: "r \<in> set data \<and> conv (schema_fields sc) (unpack r) = Inl e"
  then obtain e' where "convert_rows conv (schema_fields sc) data = Inl e'"
    using convert_rows_some_bad by blast
  then have w: "storage_write conv s t data = (Inl e', s)"
    using assms by (simp add: write_convert_error)
  then show "\<exists>e'. storage_write conv s t data = (Inl e', s)"
    by blast
  show "read (snd (storage_write conv s t data)) t = read s t"
    by (simp add: w)
next
  assume a: "data = pre @ r # post \<and>
          (\<forall>p \<in> set pre. \<exists>vs. conv (schema_fields sc) (unpack p) = Inr vs \<and>
                               length (schema_fields sc) \<le> length vs) \<and>
          conv (schema_fields sc) (unpack r) = Inl e"
  then have "convert_rows conv (schema_fields sc) data = Inl e"
    using convert_rows_first_bad [of pre conv "schema_fields sc" r e post] by blast
  then show "storage_write conv s t data = (Inl e, s)"
    using assms by (simp add: write_convert_error)
qed

lemma demo_describe_a: "describe demo_storage ''a'' = (Inr demo_schema, demo_storage)"
  by (simp add: describe_def reflect_table_def demo_storage_simps demo_engine_def
        restore_schema_def restore_mapping_def demo_schema_def)

theorem write_cast_failure_unchanged_witness:
  "describe demo_storage ''a'' = (Inr demo_schema, demo_storage) \<and>
   storage_write sample_convert_row demo_storage ''a''
     [Positional [PyInt 1, PyStr ''x''], Positional [PyStr ''bad-value'', PyStr ''y'']] =
     (Inl (ValueCastError ''bad-value''), demo_storage)"
proof -
  have "sample_convert_row (schema_fields demo_schema) (unpack (Positional [PyInt 1, PyStr ''x''])) =
          Inr [PyInt 1, PyStr ''x'']"
    "sample_convert_row (schema_fields demo_schema)
       (unpack (Positional [PyStr ''bad-value'', PyStr ''y''])) = Inl (ValueCastError ''bad-value'')"
    by (simp_all add: demo_schema_def)
  then show ?thesis
    using write_cast_failure_unchanged [OF demo_describe_a,
        of "Positional [PyStr ''bad-value'', PyStr ''y'']"
           "[Positional [PyInt 1, PyStr ''x''], Positional [PyStr ''bad-value'', PyStr ''y'']]"
           sample_convert_row "ValueCastError ''bad-value''"
           "[Positional [PyInt 1, PyStr ''x'']]" "[]"]
      demo_describe_a
    by (simp add: demo_schema_def)
qed

lemma demo_describe_p:
  "describe demo_storage ''p'' =
     (Inr \<lparr>schema_fields = [\<lparr>field_name = ''name'', field_type = ''string''\<rparr>]\<rparr>, demo_storage)"
  by (simp add: describe_def reflect_table_def demo_storage_simps demo_engine_def
        restore_schema_def restore_mapping_def)

lemma demo_write_keyed:
  "storage_write sample_convert_row demo_storage ''p'' [Keyed [(''name'', PyStr ''Ada'')]] =
     (Inr (), demo_storage\<lparr>s_engine := demo_engine\<lparr>engine_tables := (engine_tables demo_engine)
        (None := AList.update ''t_p'' \<lparr>tbl_columns = [(''name'', TEXT)], tbl_rows = [[PyStr ''name'']]\<rparr>
                   (engine_tables demo_engine None))\<rparr>\<rparr>)"
  by (simp add: storage_write_def demo_describe_p demo_storage_simps
        reflect_table_def execute_insert_def insert_rows_def row_of_def demo_engine_def)

text \<open>
  What a batch that converts hands to the insert: one record per row, and for a row
  given as a sequence the field names paired in order with its converted values.  A write
  that returns has appended rows to the table and changed none of those it held.
\<close>

lemma fill_rdata_length:
  "fill_rdata fs row index rd = Inr rd' \<Longrightarrow> index \<le> length row \<Longrightarrow>
     index + length fs \<le> length row"
  by (induction fs row index rd rule: fill_rdata.induct) (auto split: if_splits)

lemma convert_rows_nth:
  "convert_rows conv fs data = Inr cdata \<Longrightarrow> i < length data \<Longrightarrow>
     length cdata = length data \<and>
     (\<exists>vs. conv fs (unpack (data ! i)) = Inr vs \<and> fill_rdata fs vs 0 [] = Inr (cdata ! i))"
proof (induction data arbitrary: cdata i)
  case Nil
  then show ?case by simp
next
  case (Cons r data)
  from Cons.prems(1) obtain vs rd rest where
    r: "conv fs (unpack r) = Inr vs" "fill_rdata fs vs 0 [] = Inr rd"
      "convert_rows conv fs data = Inr rest" "cdata = rd # rest"
    by (auto split: sum.splits)
  show ?case
  proof (cases i)
    case 0
    then show ?thesis
      using r Cons.IH [OF r(3)] Cons.prems(2)
      by (cases data) (auto split: sum.splits)
  next
    case (Suc j)
    then show ?thesis
      using r Cons.IH [OF r(3), of j] Cons.prems(2) by simp
  qed
qed

lemma write_positional_row:
  assumes "distinct (map field_name fs)"
      and "convert_rows conv fs data = Inr cdata"
      and "i < length data"
      and "data ! i = Positional vs"
  shows "\<exists>cs. conv fs vs = Inr cs \<and> cdata ! i = zip (map field_name fs) cs"
proof -
  from convert_rows_nth [OF assms(2,3)] obtain cs where
    cs: "conv fs vs = Inr cs" "fill_rdata fs cs 0 [] = Inr (cdata ! i)"
    by (auto simp: assms(4))
  from fill_rdata_length [OF cs(2)] have "0 + length fs \<le> length cs"
    by simp
  from fill_rdata_zip [OF assms(1) _ this, of "[]"] cs(2)
  have "cdata ! i = zip (map field_name fs) cs"
    by simp
  with cs(1) show ?thesis by blast
qed

lemma execute_insert_reflected:
  "reflect_table e sch name = Inr dbt \<Longrightarrow> \<exists>e'. execute_insert e sch name cdata = Inr e'"
  by (simp add: reflect_table_def execute_insert_def split: option.splits)

lemma describe_reflects:
  "describe s t = (Inr sc, s1) \<Longrightarrow>
     \<exists>dbt. reflect_table (s_engine s) (s_dbschema s) (s_prefix s @ t) = Inr dbt"
  by (simp add: describe_def split: sum.splits)

lemma write_inserts_cdata:
  assumes "describe s t = (Inr sc, s)"
      and "convert_rows conv (schema_fields sc) data = Inr cdata"
  shows "\<exists>e'. execute_insert (s_engine s) (s_dbschema s) (s_prefix s @ t) cdata = Inr e' \<and>
           storage_write conv s t data = (Inr (), s\<lparr>s_engine := e'\<rparr>)"
proof -
  from describe_reflects [OF assms(1)] obtain dbt where
    r: "reflect_table (s_engine s) (s_dbschema s) (s_prefix s @ t) = Inr dbt"
    by blast
  from execute_insert_reflected [OF r] obtain e' where
    e': "execute_insert (s_engine s) (s_dbschema s) (s_prefix s @ t) cdata = Inr e'"
    by blast
  have "storage_write conv s t data = (Inr (), s\<lparr>s_engine := e'\<rparr>)"
    by (simp add: storage_write_def assms r e')
  with e' show ?thesis by blast
qed

lemma write_appends:
  assumes "storage_write conv s t data = (Inr (), s')"
  shows "\<exists>old new. read s t = (Inr old, s) \<and> read s' t = (Inr (old @ new), s')"
proof -
  from assms obtain sc cdata dbt e' where
    d: "describe s t = (Inr sc, s)" and
    r: "reflect_table (s_engine s) (s_dbschema s) (s_prefix s @ t) = Inr dbt" and
    e: "execute_insert (s_engine s) (s_dbschema s) (s_prefix s @ t) cdata = Inr e'" and
    s': "s' = s\<lparr>s_engine := e'\<rparr>"
    using describe_state [of s t]
    by (cases "describe s t") (auto simp: storage_write_def split: sum.splits)
  from r have m: "map_of (engine_tables (s_engine s) (s_dbschema s)) (s_prefix s @ t) = Some dbt"
    by (simp add: reflect_table_def split: option.splits)
  with e have "reflect_table e' (s_dbschema s) (s_prefix s @ t) = Inr (insert_rows dbt cdata)"
    by (auto simp: execute_insert_def reflect_table_def update_conv')
  then have "read s' t = (Inr (tbl_rows dbt @
      (if cdata = [] then [map (\<lambda>c. PyNone) (tbl_columns dbt)]
       else map (row_of (tbl_columns dbt)) cdata)), s')"
    by (simp add: read_def s' insert_rows_def)
  moreover have "read s t = (Inr (tbl_rows dbt), s)"
    using r by (simp add: read_def)
  ultimately show ?thesis by blast
qed

text \<open>
  Claim C9.  The claim has a row given as a dictionary normalised into the record of its
  values, and the test of a large batch writes dictionaries \<^verbatim>\<open>{'id': value}\<close> and
  reads the values back.  \<^verbatim>\<open>Storage.write\<close> unpacks every row by iteration, so for a
  dictionary it converts the keys.  Written to a table with the one text column
  \<^verbatim>\<open>name\<close>, the row \<^verbatim>\<open>{'name': 'Ada'}\<close> becomes the record
  \<^verbatim>\<open>{'name': 'name'}\<close> and the row read back holds \<^verbatim>\<open>'name'\<close>; written to a table with
  an integer column \<^verbatim>\<open>id\<close> and a text column \<^verbatim>\<open>name\<close>, the row
  \<^verbatim>\<open>{'id': 0, 'name': 'Ada'}\<close> makes the conversion raise on the key \<^verbatim>\<open>'id'\<close>.
\<close>

theorem keyed_row_stores_its_keys:
  "convert_rows sample_convert_row [\<lparr>field_name = ''name'', field_type = ''string''\<rparr>]
       [Keyed [(''name'', PyStr ''Ada'')]] =
     Inr [[(''name'', PyStr ''name'')]] \<and>
   fst (storage_write sample_convert_row demo_storage ''p'' [Keyed [(''name'', PyStr ''Ada'')]]) =
     Inr () \<and>
   fst (read (snd (storage_write sample_convert_row demo_storage ''p''
                     [Keyed [(''name'', PyStr ''Ada'')]])) ''p'') =
     Inr [[PyStr ''name'']] \<and>
   storage_write sample_convert_row demo_storage ''a''
       [Keyed [(''id'', PyInt 0), (''name'', PyStr ''Ada'')]] =
     (Inl (ValueCastError ''id''), demo_storage)"
proof (intro conjI)
  show "convert_rows sample_convert_row [\<lparr>field_name = ''name'', field_type = ''string''\<rparr>]
       [Keyed [(''name'', PyStr ''Ada'')]] = Inr [[(''name'', PyStr ''name'')]]"
    by simp
  show "fst (storage_write sample_convert_row demo_storage ''p''
               [Keyed [(''name'', PyStr ''Ada'')]]) = Inr ()"
    by (simp add: demo_write_keyed)
  show "fst (read (snd (storage_write sample_convert_row demo_storage ''p''
                     [Keyed [(''name'', PyStr ''Ada'')]])) ''p'') = Inr [[PyStr ''name'']]"
    by (simp add: demo_write_keyed read_def reflect_table_def demo_storage_simps demo_engine_def)
  show "storage_write sample_convert_row demo_storage ''a''
       [Keyed [(''id'', PyInt 0), (''name'', PyStr ''Ada'')]] =
     (Inl (ValueCastError ''id''), demo_storage)"
    by (simp add: storage_write_def demo_describe_a demo_schema_def)
qed

subsection \<open>Writing a key twice\<close>




end
